theory Spec2Isabelle
  imports Complex_Main "HOL-Library.Word"
begin

section \<open>TX Blueprint System: data model\<close>

text \<open>
  A shallow embedding of \<^verbatim>\<open>TXBlueprintSystem.cpp\<close>. The float type of the source is
  the type parameter \<open>'f\<close>; its addition and multiplication are \<open>+\<close> and \<open>*\<close> of
  that type, so nothing here depends on how floating point rounds. Concrete runs are
  evaluated at \<open>'f = real\<close> on small integers, where binary32 arithmetic is exact.
\<close>

type_synonym TXNodeID = "32 word"
type_synonym TXPinID = "16 word"
type_synonym TXOpCode = "8 word"

text \<open>\<^verbatim>\<open>struct TXExecutionContext\<close>; the pointer is an address, \<open>0\<close> for \<^verbatim>\<open>nullptr\<close>.\<close>

record 'f TXExecutionContext =
  DeltaTime :: 'f
  UserData :: nat

text \<open>\<^verbatim>\<open>enum class TXValueType\<close>.\<close>

datatype TXValueType = TXNone | TXInt | TXFloat | TXBool | TXVector3 | TXPointer

text \<open>
  \<^verbatim>\<open>struct TXValue\<close>: the discriminant and the union. No function of the source reads
  or writes the members \<^verbatim>\<open>Int\<close>, \<^verbatim>\<open>Bool\<close> or \<^verbatim>\<open>Ptr\<close>, and the source reads
  \<^verbatim>\<open>Float\<close> without looking at \<^verbatim>\<open>Type\<close>; the record carries the union as its
  \<^verbatim>\<open>Float\<close> view.
\<close>

record 'f TXValue =
  Type :: TXValueType
  Float :: 'f

text \<open>\<^verbatim>\<open>struct TXBlueprintNode\<close>, the static description of a node; no function uses it.\<close>

record TXBlueprintNode =
  ID :: TXNodeID
  OpCode :: TXOpCode
  InputCount :: "16 word"
  OutputCount :: "16 word"

text \<open>\<^verbatim>\<open>struct TXBlueprintBytecode\<close>.\<close>

record 'f TXBlueprintBytecode =
  Instructions :: "TXOpCode list"
  Constants :: "'f TXValue list"

text \<open>
  \<^verbatim>\<open>TXNodeFunction\<close> is a \<^verbatim>\<open>std::function\<close>: either empty or holding a target. A
  target is called with the context, \<^verbatim>\<open>In[0]\<close>, \<^verbatim>\<open>In[1]\<close> and the slot \<^verbatim>\<open>Out\<close>
  points to; it returns the context, the slot \<^verbatim>\<open>Out\<close> points to and the values it
  printed. A target of the model therefore reads at most two inputs and writes at
  most the one output slot. \<^verbatim>\<open>Execute\<close> passes the same pointer for \<^verbatim>\<open>In\<close> and
  \<^verbatim>\<open>Out\<close>, so \<^verbatim>\<open>In[0]\<close> and the slot \<^verbatim>\<open>Out\<close> points to are one slot; a target
  is a function of what the window holds when it is called.
\<close>

datatype 'f TXNodeFunction =
  EmptyFunction
| Target "'f TXExecutionContext \<Rightarrow> 'f TXValue \<Rightarrow> 'f TXValue \<Rightarrow> 'f TXValue
          \<Rightarrow> 'f TXExecutionContext \<times> 'f TXValue \<times> 'f list"

text \<open>
  What ends a call other than returning: the assertion of \<^verbatim>\<open>Get\<close> fails (the
  process aborts), an empty \<^verbatim>\<open>std::function\<close> is invoked
  (\<^verbatim>\<open>std::bad_function_call\<close>), or the window \<^verbatim>\<open>&Stack[SP - 2]\<close> does not lie
  inside the array, which C++ leaves undefined; the model stops there and records
  the index.
\<close>

datatype fault =
  AssertionFailed TXOpCode
| BadFunctionCall TXOpCode
| OutOfBounds int

section \<open>The node registry\<close>

text \<open>\<^verbatim>\<open>std::unordered_map<TXOpCode, TXNodeFunction> NodeFunctions\<close> of the singleton.\<close>

type_synonym 'f TXNodeRegistry = "TXOpCode \<rightharpoonup> 'f TXNodeFunction"

definition RegisterNode ::
  "'f TXNodeRegistry \<Rightarrow> TXOpCode \<Rightarrow> 'f TXNodeFunction \<Rightarrow> 'f TXNodeRegistry" where
  "RegisterNode NodeFunctions opcode fn = NodeFunctions(opcode \<mapsto> fn)"

text \<open>
  \<^verbatim>\<open>Get\<close>: the assertion, in effect when \<open>asserts\<close> holds (no \<^verbatim>\<open>NDEBUG\<close>), then
  \<^verbatim>\<open>NodeFunctions[opcode]\<close>, which inserts a default-constructed, empty function for a
  missing key. The registry is returned with the function.
\<close>

definition Get ::
  "bool \<Rightarrow> 'f TXNodeRegistry \<Rightarrow> TXOpCode \<Rightarrow> fault + 'f TXNodeFunction \<times> 'f TXNodeRegistry" where
  "Get asserts NodeFunctions opcode =
     (if asserts \<and> NodeFunctions opcode = None then Inl (AssertionFailed opcode)
      else case NodeFunctions opcode of
             Some fn \<Rightarrow> Inr (fn, NodeFunctions)
           | None \<Rightarrow> Inr (EmptyFunction, NodeFunctions(opcode \<mapsto> EmptyFunction)))"

text \<open>Calling a \<^verbatim>\<open>TXNodeFunction\<close>: \<^verbatim>\<open>operator()\<close> throws when it is empty.\<close>

definition invoke ::
  "TXOpCode \<Rightarrow> 'f TXNodeFunction \<Rightarrow> 'f TXExecutionContext \<Rightarrow> 'f TXValue \<Rightarrow> 'f TXValue \<Rightarrow> 'f TXValue
   \<Rightarrow> fault + 'f TXExecutionContext \<times> 'f TXValue \<times> 'f list" where
  "invoke Op Fn ctx In0 In1 Out =
     (case Fn of
        EmptyFunction \<Rightarrow> Inl (BadFunctionCall Op)
      | Target f \<Rightarrow> Inr (f ctx In0 In1 Out))"

section \<open>The virtual machine\<close>

text \<open>
  The state of the loop of \<^verbatim>\<open>Execute\<close>: the instruction pointer as an index into
  \<^verbatim>\<open>Instructions\<close>, \<^verbatim>\<open>SP\<close>, the array \<^verbatim>\<open>Stack\<close>, the context passed by reference
  and the registry singleton. \<open>Printed\<close> is what \<^verbatim>\<open>printf\<close> wrote and \<open>Dispatched\<close>
  lists the opcodes whose target was called, in order. \<open>instrs ! IP s\<close> is only
  read under the loop's guard \<^verbatim>\<open>IP < End\<close>.
\<close>

record 'f vm =
  IP :: nat
  SP :: int
  Stack :: "'f TXValue list"
  Context :: "'f TXExecutionContext"
  Registry :: "'f TXNodeRegistry"
  Printed :: "'f list"
  Dispatched :: "TXOpCode list"

datatype 'f outcome = Halted "'f vm" | Faulted fault "'f vm"

text \<open>
  One iteration of the loop (lines 137 to 144): fetch and advance, look the function
  up, form the window \<^verbatim>\<open>&Stack[SP - 2]\<close> for both \<^verbatim>\<open>In\<close> and \<^verbatim>\<open>Out\<close>, call, and
  decrement \<^verbatim>\<open>SP\<close>. The source has no check on \<^verbatim>\<open>SP\<close>; the model stops with
  \<open>OutOfBounds\<close> where the two slots of the window are not inside the array. The
  window is an argument of the call, formed before the function is entered, so this
  comes before the throw of an empty function. \<^verbatim>\<open>SP\<close> is an \<^verbatim>\<open>int\<close>; an iteration
  that completes has it between 2 and the size of the array, far from wrapping around.
\<close>

definition step :: "bool \<Rightarrow> TXOpCode list \<Rightarrow> 'f vm \<Rightarrow> fault \<times> 'f vm + 'f vm" where
  "step asserts instrs s =
     (let Op = instrs ! IP s;
          s1 = s\<lparr>IP := IP s + 1\<rparr>
      in case Get asserts (Registry s1) Op of
           Inl e \<Rightarrow> Inl (e, s1)
         | Inr (Fn, reg) \<Rightarrow>
             (let s2 = s1\<lparr>Registry := reg\<rparr>
              in if SP s2 - 2 < 0 \<or> int (length (Stack s2)) < SP s2
                 then Inl (OutOfBounds (SP s2 - 2), s2)
                 else (let i = nat (SP s2 - 2)
                       in case invoke Op Fn (Context s2) (Stack s2 ! i) (Stack s2 ! (i + 1)) (Stack s2 ! i) of
                            Inl e \<Rightarrow> Inl (e, s2)
                          | Inr (ctx, out, txt) \<Rightarrow>
                              Inr (s2\<lparr>SP := SP s2 - 1,
                                      Stack := (Stack s2)[i := out],
                                      Context := ctx,
                                      Printed := Printed s2 @ txt,
                                      Dispatched := Dispatched s2 @ [Op]\<rparr>))))"

text \<open>\<^verbatim>\<open>while (IP < End)\<close>, from any state of the loop.\<close>

function run :: "bool \<Rightarrow> TXOpCode list \<Rightarrow> 'f vm \<Rightarrow> 'f outcome" where
  "run asserts instrs s =
     (if IP s < length instrs
      then (case step asserts instrs s of
              Inl (e, s') \<Rightarrow> Faulted e s'
            | Inr s' \<Rightarrow> run asserts instrs s')
      else Halted s)"
  by pat_completeness auto
termination
  by (relation "measure (\<lambda>(asserts, instrs, s). length instrs - IP s)")
     (auto simp: step_def Let_def split: sum.splits prod.splits if_splits)

declare run.simps [simp del]

text \<open>
  \<^verbatim>\<open>TXValue Stack[64]\<close> is default-initialised: \<^verbatim>\<open>Type\<close> is \<^verbatim>\<open>None\<close> and the union
  is indeterminate; \<open>uninit i\<close> is what slot \<open>i\<close> happens to hold.
\<close>

definition Stack0 :: "(nat \<Rightarrow> 'f) \<Rightarrow> 'f TXValue list" where
  "Stack0 uninit = map (\<lambda>i. \<lparr>Type = TXNone, Float = uninit i\<rparr>) [0..<64]"

definition Execute ::
  "bool \<Rightarrow> (nat \<Rightarrow> 'f) \<Rightarrow> 'f TXNodeRegistry \<Rightarrow> 'f TXBlueprintBytecode \<Rightarrow> 'f TXExecutionContext
   \<Rightarrow> 'f outcome" where
  "Execute asserts uninit reg Bytecode ctx =
     run asserts (Instructions Bytecode)
       \<lparr>IP = 0, SP = 0, Stack = Stack0 uninit, Context = ctx, Registry = reg,
        Printed = [], Dispatched = []\<rparr>"

text \<open>The values on the stack: the slots below \<^verbatim>\<open>SP\<close>, bottom first.\<close>

definition stack_contents :: "'f vm \<Rightarrow> 'f TXValue list" where
  "stack_contents s = take (nat (SP s)) (Stack s)"

section \<open>The core nodes\<close>

definition TX_OP_ADD_FLOAT :: TXOpCode where "TX_OP_ADD_FLOAT = 1"
definition TX_OP_MUL_FLOAT :: TXOpCode where "TX_OP_MUL_FLOAT = 2"
definition TX_OP_PRINT_FLOAT :: TXOpCode where "TX_OP_PRINT_FLOAT = 3"

text \<open>
  The three lambdas of \<^verbatim>\<open>RegisterCoreNodes\<close>. The first two assign \<^verbatim>\<open>Out->Type\<close>,
  then \<^verbatim>\<open>Out->Float\<close> from the \<^verbatim>\<open>Float\<close> members of the inputs, which the
  assignment to \<^verbatim>\<open>Type\<close> leaves as they were; the third writes no output.
\<close>

definition AddFloat ::
  "('f::plus) TXExecutionContext \<Rightarrow> 'f TXValue \<Rightarrow> 'f TXValue \<Rightarrow> 'f TXValue
   \<Rightarrow> 'f TXExecutionContext \<times> 'f TXValue \<times> 'f list" where
  "AddFloat ctx In0 In1 Out =
     (ctx, Out\<lparr>Type := TXFloat, Float := Float In0 + Float In1\<rparr>, [])"

definition MulFloat ::
  "('f::times) TXExecutionContext \<Rightarrow> 'f TXValue \<Rightarrow> 'f TXValue \<Rightarrow> 'f TXValue
   \<Rightarrow> 'f TXExecutionContext \<times> 'f TXValue \<times> 'f list" where
  "MulFloat ctx In0 In1 Out =
     (ctx, Out\<lparr>Type := TXFloat, Float := Float In0 * Float In1\<rparr>, [])"

definition PrintFloat ::
  "'f TXExecutionContext \<Rightarrow> 'f TXValue \<Rightarrow> 'f TXValue \<Rightarrow> 'f TXValue
   \<Rightarrow> 'f TXExecutionContext \<times> 'f TXValue \<times> 'f list" where
  "PrintFloat ctx In0 In1 Out = (ctx, Out, [Float In0])"

definition RegisterCoreNodes :: "('f::{plus,times}) TXNodeRegistry \<Rightarrow> 'f TXNodeRegistry" where
  "RegisterCoreNodes reg =
     RegisterNode
       (RegisterNode
          (RegisterNode reg TX_OP_ADD_FLOAT (Target AddFloat))
          TX_OP_MUL_FLOAT (Target MulFloat))
       TX_OP_PRINT_FLOAT (Target PrintFloat)"

text \<open>The registry that \<^verbatim>\<open>Instance()\<close> constructs on first use: no node registered.\<close>

definition EmptyRegistry :: "'f TXNodeRegistry" where
  "EmptyRegistry = Map.empty"

text \<open>
  \<^verbatim>\<open>ExampleBlueprint\<close>: register the core nodes, then execute add, multiply, print
  with a null user pointer; \<open>dt\<close> stands for \<^verbatim>\<open>0.016f\<close>.
\<close>

definition ExampleBlueprint ::
  "bool \<Rightarrow> (nat \<Rightarrow> 'f) \<Rightarrow> ('f::{plus,times}) \<Rightarrow> 'f TXNodeRegistry \<Rightarrow> 'f outcome" where
  "ExampleBlueprint asserts uninit dt reg =
     Execute asserts uninit (RegisterCoreNodes reg)
       \<lparr>Instructions = [TX_OP_ADD_FLOAT, TX_OP_MUL_FLOAT, TX_OP_PRINT_FLOAT], Constants = []\<rparr>
       \<lparr>DeltaTime = dt, UserData = 0\<rparr>"

section \<open>Observing an outcome\<close>

text \<open>The state a run ended in, and the fault if it did not return.\<close>

fun final :: "'f outcome \<Rightarrow> 'f vm" where
  "final (Halted s) = s"
| "final (Faulted e s) = s"

fun fault_of :: "'f outcome \<Rightarrow> fault option" where
  "fault_of (Halted s) = None"
| "fault_of (Faulted e s) = Some e"

text \<open>
  A state with the array cut down to the values on the stack, and an outcome seen that
  way: what is left once the slots at and above \<^verbatim>\<open>SP\<close> are forgotten.
\<close>

definition visible :: "'f vm \<Rightarrow> 'f vm" where
  "visible s = s\<lparr>Stack := stack_contents s\<rparr>"

definition observe :: "'f outcome \<Rightarrow> 'f outcome" where
  "observe r = (case r of Halted s \<Rightarrow> Halted (visible s) | Faulted e s \<Rightarrow> Faulted e (visible s))"

text \<open>
  The state of the loop at its entry had the floats \<open>vals\<close> been on the stack, bottom
  first: \<^verbatim>\<open>SP\<close> is their number and the slots above them are as \<^verbatim>\<open>Execute\<close> finds
  them. \<^verbatim>\<open>Execute\<close> itself enters the loop in \<open>seeded []\<close>.
\<close>

definition seeded ::
  "'f list \<Rightarrow> (nat \<Rightarrow> 'f) \<Rightarrow> 'f TXNodeRegistry \<Rightarrow> 'f TXExecutionContext \<Rightarrow> 'f vm" where
  "seeded vals uninit reg ctx =
     \<lparr>IP = 0, SP = int (length vals),
      Stack = map (\<lambda>x. \<lparr>Type = TXFloat, Float = x\<rparr>) vals @ drop (length vals) (Stack0 uninit),
      Context = ctx, Registry = reg, Printed = [], Dispatched = []\<rparr>"

section \<open>The loop on the memory around the array\<close>

text \<open>
  The source never compares \<^verbatim>\<open>SP\<close> with the bounds of \<^verbatim>\<open>Stack\<close>: where \<open>step\<close> stops,
  the compiled loop hands the node function a window of whatever memory lies beside the
  array and goes on. This second reading follows it there. \<open>Outside\<close> is that memory,
  addressed like the array (\<open>Outside s (- 1)\<close> is \<^verbatim>\<open>Stack[-1]\<close>); it is taken to be
  apart from the context, the registry and the loop's own variables.
\<close>

record 'f vm_mem = "'f vm" +
  Outside :: "int \<Rightarrow> 'f TXValue"

text \<open>\<^verbatim>\<open>Stack[k]\<close> read and written with no check.\<close>

definition slot :: "'f vm_mem \<Rightarrow> int \<Rightarrow> 'f TXValue" where
  "slot s k = (if 0 \<le> k \<and> k < int (length (Stack s)) then Stack s ! nat k else Outside s k)"

definition store :: "'f vm_mem \<Rightarrow> int \<Rightarrow> 'f TXValue \<Rightarrow> 'f vm_mem" where
  "store s k v =
     (if 0 \<le> k \<and> k < int (length (Stack s)) then s\<lparr>Stack := (Stack s)[nat k := v]\<rparr>
      else s\<lparr>Outside := (Outside s)(k := v)\<rparr>)"

text \<open>One iteration (lines 137 to 144) as written: no test between the lookup and the call.\<close>

definition step_mem ::
  "bool \<Rightarrow> TXOpCode list \<Rightarrow> 'f vm_mem \<Rightarrow> fault \<times> 'f vm_mem + 'f vm_mem" where
  "step_mem asserts instrs s =
     (let Op = instrs ! IP s;
          s1 = s\<lparr>IP := IP s + 1\<rparr>
      in case Get asserts (Registry s1) Op of
           Inl e \<Rightarrow> Inl (e, s1)
         | Inr (Fn, reg) \<Rightarrow>
             (let s2 = s1\<lparr>Registry := reg\<rparr>;
                  k = SP s2 - 2
              in case invoke Op Fn (Context s2) (slot s2 k) (slot s2 (k + 1)) (slot s2 k) of
                   Inl e \<Rightarrow> Inl (e, s2)
                 | Inr (ctx, out, txt) \<Rightarrow>
                     Inr ((store s2 k out)\<lparr>SP := SP s2 - 1,
                            Context := ctx,
                            Printed := Printed s2 @ txt,
                            Dispatched := Dispatched s2 @ [Op]\<rparr>)))"

function run_mem ::
  "bool \<Rightarrow> TXOpCode list \<Rightarrow> 'f vm_mem \<Rightarrow> fault \<times> 'f vm_mem + 'f vm_mem" where
  "run_mem asserts instrs s =
     (if IP s < length instrs
      then (case step_mem asserts instrs s of
              Inl (e, s') \<Rightarrow> Inl (e, s')
            | Inr s' \<Rightarrow> run_mem asserts instrs s')
      else Inr s)"
  by pat_completeness auto
termination
  by (relation "measure (\<lambda>(asserts, instrs, s). length instrs - IP s)")
     (auto simp: step_mem_def store_def Let_def split: sum.splits prod.splits if_splits)

declare run_mem.simps [simp del]

definition Execute_mem ::
  "bool \<Rightarrow> (int \<Rightarrow> 'f TXValue) \<Rightarrow> (nat \<Rightarrow> 'f) \<Rightarrow> 'f TXNodeRegistry \<Rightarrow> 'f TXBlueprintBytecode
   \<Rightarrow> 'f TXExecutionContext \<Rightarrow> fault \<times> 'f vm_mem + 'f vm_mem" where
  "Execute_mem asserts outside uninit reg Bytecode ctx =
     run_mem asserts (Instructions Bytecode)
       \<lparr>IP = 0, SP = 0, Stack = Stack0 uninit, Context = ctx, Registry = reg,
        Printed = [], Dispatched = [], Outside = outside\<rparr>"

definition ExampleBlueprint_mem ::
  "bool \<Rightarrow> (int \<Rightarrow> 'f TXValue) \<Rightarrow> (nat \<Rightarrow> 'f) \<Rightarrow> ('f::{plus,times}) \<Rightarrow> 'f TXNodeRegistry
   \<Rightarrow> fault \<times> 'f vm_mem + 'f vm_mem" where
  "ExampleBlueprint_mem asserts outside uninit dt reg =
     Execute_mem asserts outside uninit (RegisterCoreNodes reg)
       \<lparr>Instructions = [TX_OP_ADD_FLOAT, TX_OP_MUL_FLOAT, TX_OP_PRINT_FLOAT], Constants = []\<rparr>
       \<lparr>DeltaTime = dt, UserData = 0\<rparr>"

text \<open>The state such a run ended in, and the fault if it did not return.\<close>

definition final_mem :: "fault \<times> 'f vm_mem + 'f vm_mem \<Rightarrow> 'f vm_mem" where
  "final_mem r = (case r of Inl (e, s) \<Rightarrow> s | Inr s \<Rightarrow> s)"

definition fault_mem :: "fault \<times> 'f vm_mem + 'f vm_mem \<Rightarrow> fault option" where
  "fault_mem r = (case r of Inl (e, s) \<Rightarrow> Some e | Inr s \<Rightarrow> None)"

text \<open>
  Memory beside the array that holds nothing of interest, and the loop at its entry
  with the floats \<open>vals\<close> on the stack, as \<open>seeded\<close>.
\<close>

definition blank :: "int \<Rightarrow> ('f::zero) TXValue" where
  "blank k = \<lparr>Type = TXNone, Float = 0\<rparr>"


section \<open>Unfolding the loop and one iteration\<close>

lemma run_more:
  "IP s < length instrs \<Longrightarrow>
   run a instrs s = (case step a instrs s of Inl (e, s') \<Rightarrow> Faulted e s' | Inr s' \<Rightarrow> run a instrs s')"
  by (simp add: run.simps)

lemma run_done: "\<not> IP s < length instrs \<Longrightarrow> run a instrs s = Halted s"
  by (simp add: run.simps)

lemmas core_defs = RegisterCoreNodes_def RegisterNode_def EmptyRegistry_def
  TX_OP_ADD_FLOAT_def TX_OP_MUL_FLOAT_def TX_OP_PRINT_FLOAT_def
  AddFloat_def MulFloat_def PrintFloat_def

lemmas eval_defs = run_more run_done step_def Get_def invoke_def Let_def
  seeded_def Stack0_def stack_contents_def

lemma Execute_seeded: "Execute a uninit reg b ctx = run a (Instructions b) (seeded [] uninit reg ctx)"
  by (simp add: Execute_def seeded_def)

lemma Get_bound: "reg op = Some fn \<Longrightarrow> Get a reg op = Inr (fn, reg)"
  by (simp add: Get_def)

lemma step_Target:
  assumes "Registry s (instrs ! IP s) = Some (Target f)"
    and "2 \<le> SP s" and "SP s \<le> int (length (Stack s))"
  shows "step a instrs s =
      Inr (case f (Context s) (Stack s ! nat (SP s - 2)) (Stack s ! (nat (SP s - 2) + 1))
                  (Stack s ! nat (SP s - 2)) of
             (ctx, out, pr) \<Rightarrow>
               s\<lparr>IP := IP s + 1, SP := SP s - 1, Stack := (Stack s)[nat (SP s - 2) := out],
                 Context := ctx, Printed := Printed s @ pr,
                 Dispatched := Dispatched s @ [instrs ! IP s]\<rparr>)"
  using assms
  by (simp add: step_def Get_bound invoke_def Let_def split: prod.splits)

lemma step_bound_out_of_bounds:
  assumes "Registry s (instrs ! IP s) = Some fn"
    and "SP s < 2 \<or> int (length (Stack s)) < SP s"
  shows "step a instrs s = Inl (OutOfBounds (SP s - 2), s\<lparr>IP := IP s + 1\<rparr>)"
  using assms
  by (auto simp add: step_def Get_bound Let_def)

lemma step_Inr_fields:
  assumes "step a instrs s = Inr s'"
  shows "IP s' = IP s + 1 \<and> SP s' = SP s - 1 \<and> length (Stack s') = length (Stack s)
       \<and> Dispatched s' = Dispatched s @ [instrs ! IP s]
       \<and> 2 \<le> SP s \<and> SP s \<le> int (length (Stack s))"
  using assms
  by (auto simp: step_def Let_def split: sum.splits prod.splits if_splits)


lemma step_Registry_bound:
  assumes "step a instrs s = Inr s'" and "Registry s op = Some fn"
  shows "Registry s' op = Some fn"
  using assms
  by (auto simp: step_def Let_def Get_def split: sum.splits prod.splits if_splits option.splits)

section \<open>The loop as a whole\<close>

text \<open>
  A run over instructions that are all bound to a target either halts, one slot lower
  per instruction, or stops at a window outside the array.
\<close>
lemma run_well_formed_general:
  assumes "\<forall>i. IP s \<le> i \<and> i < length instrs \<longrightarrow> (\<exists>f. Registry s (instrs ! i) = Some (Target f))"
    and "\<forall>k. fault_of (run a instrs s) \<noteq> Some (OutOfBounds k)"
  shows "fault_of (run a instrs s) = None
       \<and> SP (final (run a instrs s)) = SP s - int (length instrs - IP s)"
  using assms
proof (induction a instrs s rule: run.induct)
  case (1 a instrs s)
  show ?case
  proof (cases "IP s < length instrs")
    case False
    then show ?thesis by (simp add: run_done)
  next
    case True
    then obtain f where f: "Registry s (instrs ! IP s) = Some (Target f)"
      using "1.prems"(1) by auto
    have inb: "2 \<le> SP s \<and> SP s \<le> int (length (Stack s))"
    proof (rule ccontr)
      assume "\<not> ?thesis"
      then have "step a instrs s = Inl (OutOfBounds (SP s - 2), s\<lparr>IP := IP s + 1\<rparr>)"
        using f by (intro step_bound_out_of_bounds) auto
      then have "run a instrs s = Faulted (OutOfBounds (SP s - 2)) (s\<lparr>IP := IP s + 1\<rparr>)"
        using True by (simp add: run_more)
      then show False using "1.prems"(2) by simp
    qed
    then obtain s1 where s1: "step a instrs s = Inr s1"
      using step_Target [OF f, of a] by (auto split: prod.splits)
    have r: "run a instrs s = run a instrs s1"
      using True s1 by (simp add: run_more)
    have fields: "IP s1 = IP s + 1" "SP s1 = SP s - 1"
      using step_Inr_fields [OF s1] by auto
    have b1: "\<forall>i. IP s1 \<le> i \<and> i < length instrs \<longrightarrow> (\<exists>f. Registry s1 (instrs ! i) = Some (Target f))"
      using "1.prems"(1) fields step_Registry_bound [OF s1] by (metis Suc_eq_plus1 Suc_leD)
    have "fault_of (run a instrs s1) = None
        \<and> SP (final (run a instrs s1)) = SP s1 - int (length instrs - IP s1)"
      using "1.IH" [OF True s1 b1] "1.prems"(2) r by simp
    then show ?thesis using r fields True by auto
  qed
qed


section \<open>The slots above the stack pointer\<close>

text \<open>
  An iteration reads the two slots below \<^verbatim>\<open>SP\<close> and writes the lower one, so states
  that agree except at and above \<^verbatim>\<open>SP\<close> are taken to states that agree in the same
  way.
\<close>

lemma visible_eqD:
  assumes "visible s1 = visible s2"
  shows "s2 = s1\<lparr>Stack := Stack s2\<rparr>" and "take (nat (SP s1)) (Stack s1) = take (nat (SP s1)) (Stack s2)"
proof -
  have "IP (visible s1) = IP (visible s2)" "SP (visible s1) = SP (visible s2)"
    "Context (visible s1) = Context (visible s2)" "Registry (visible s1) = Registry (visible s2)"
    "Printed (visible s1) = Printed (visible s2)" "Dispatched (visible s1) = Dispatched (visible s2)"
    "Stack (visible s1) = Stack (visible s2)" "vm.more (visible s1) = vm.more (visible s2)"
    using assms by simp_all
  then have e: "IP s1 = IP s2" "SP s1 = SP s2" "Context s1 = Context s2" "Registry s1 = Registry s2"
    "Printed s1 = Printed s2" "Dispatched s1 = Dispatched s2"
    "take (nat (SP s1)) (Stack s1) = take (nat (SP s2)) (Stack s2)"
    by (simp_all add: visible_def stack_contents_def)
  show "s2 = s1\<lparr>Stack := Stack s2\<rparr>" using e by simp
  show "take (nat (SP s1)) (Stack s1) = take (nat (SP s1)) (Stack s2)" using e by simp
qed

lemma take_eq_nth:
  assumes "take n xs = take n ys" and "i < n"
  shows "xs ! i = ys ! i"
proof -
  have "xs ! i = take n xs ! i" using assms(2) by simp
  also have "\<dots> = take n ys ! i" using assms(1) by simp
  also have "\<dots> = ys ! i" using assms(2) by simp
  finally show ?thesis .
qed

lemma take_eq_less:
  assumes "take n xs = take n ys" and "m \<le> n"
  shows "take m xs = take m ys"
proof -
  have "take m (take n xs) = take m (take n ys)" using assms(1) by simp
  then show ?thesis using assms(2) by (simp add: min_def)
qed

lemma step_visible:
  assumes "visible s1 = visible s2" and "length (Stack s1) = length (Stack s2)"
  shows "map_sum (map_prod id visible) visible (step a instrs s1)
       = map_sum (map_prod id visible) visible (step a instrs s2)"
proof -
  define ys where "ys = Stack s2"
  have s2: "s2 = s1\<lparr>Stack := ys\<rparr>" and tk: "take (nat (SP s1)) (Stack s1) = take (nat (SP s1)) ys"
    using visible_eqD [OF assms(1)] by (simp_all add: ys_def)
  have len: "length ys = length (Stack s1)" using assms(2) by (simp add: ys_def)
  show ?thesis
  proof (cases "Get a (Registry s1) (instrs ! IP s1)")
    case (Inl e)
    then show ?thesis
      by (simp add: step_def s2 visible_def stack_contents_def tk)
  next
    case (Inr p)
    obtain Fn reg where p: "p = (Fn, reg)" by (cases p)
    show ?thesis
    proof (cases "SP s1 - 2 < 0 \<or> int (length (Stack s1)) < SP s1")
      case True
      then show ?thesis
        using Inr p by (auto simp add: step_def s2 len visible_def stack_contents_def tk)
    next
      case False
      then have b: "2 \<le> SP s1" "SP s1 \<le> int (length (Stack s1))" by auto
      have n0: "Stack s1 ! nat (SP s1 - 2) = ys ! nat (SP s1 - 2)"
        using b by (intro take_eq_nth [OF tk]) auto
      have n1: "Stack s1 ! Suc (nat (SP s1 - 2)) = ys ! Suc (nat (SP s1 - 2))"
        using b by (intro take_eq_nth [OF tk]) auto
      have t1: "take (nat (SP s1 - 1)) (Stack s1) = take (nat (SP s1 - 1)) ys"
        using b by (intro take_eq_less [OF tk]) auto
      show ?thesis
      proof (cases "invoke (instrs ! IP s1) Fn (Context s1) (ys ! nat (SP s1 - 2)) (ys ! Suc (nat (SP s1 - 2))) (ys ! nat (SP s1 - 2))")
        case (Inl e)
        then show ?thesis
          using Inr p False
          by (simp add: step_def Let_def s2 len n0 n1 visible_def stack_contents_def tk)
      next
        case (Inr q)
        obtain ctx out pr where q: "q = (ctx, out, pr)" by (cases q)
        show ?thesis
          using \<open>Get a (Registry s1) (instrs ! IP s1) = Inr p\<close> p False Inr q
          by (simp add: step_def Let_def s2 len n0 n1 visible_def stack_contents_def take_update_swap t1)
      qed
    qed
  qed
qed

lemma run_visible:
  assumes "visible s1 = visible s2" and "length (Stack s1) = length (Stack s2)"
  shows "observe (run a instrs s1) = observe (run a instrs s2)"
  using assms
proof (induction a instrs s1 arbitrary: s2 rule: run.induct)
  case (1 a instrs s1)
  have ip: "IP s2 = IP s1" using visible_eqD(1) [OF "1.prems"(1)] by (metis vm.select_convs(1) vm.surjective vm.update_convs(3))
  have sv: "map_sum (map_prod id visible) visible (step a instrs s1)
          = map_sum (map_prod id visible) visible (step a instrs s2)"
    using step_visible [OF "1.prems"] .
  show ?case
  proof (cases "IP s1 < length instrs")
    case False
    then show ?thesis using ip "1.prems"(1) by (simp add: run_done observe_def)
  next
    case True
    show ?thesis
    proof (cases "step a instrs s1")
      case (Inl q1)
      obtain e t1 where q1: "q1 = (e, t1)" by (cases q1)
      obtain t2 where st2: "step a instrs s2 = Inl (e, t2)" and v: "visible t1 = visible t2"
        using sv Inl q1 by (cases "step a instrs s2") (auto simp: map_prod_def split: prod.splits)
      show ?thesis using True ip Inl q1 st2 v by (simp add: run_more observe_def)
    next
      case (Inr t1)
      obtain t2 where st2: "step a instrs s2 = Inr t2" and v: "visible t1 = visible t2"
        using sv Inr by (cases "step a instrs s2") auto
      have l: "length (Stack t1) = length (Stack t2)"
        using step_Inr_fields [OF Inr] step_Inr_fields [OF st2] "1.prems"(2) by simp
      have "observe (run a instrs t1) = observe (run a instrs t2)"
        using "1.IH" [OF True Inr v l] .
      then show ?thesis using True ip Inr st2 by (simp add: run_more)
    qed
  qed
qed

section \<open>The loop on the memory around the array: lemmas\<close>

lemma run_mem_more:
  "IP s < length instrs \<Longrightarrow>
   run_mem a instrs s = (case step_mem a instrs s of Inl (e, s') \<Rightarrow> Inl (e, s') | Inr s' \<Rightarrow> run_mem a instrs s')"
  by (simp add: run_mem.simps)

lemma run_mem_done: "\<not> IP s < length instrs \<Longrightarrow> run_mem a instrs s = Inr s"
  by (simp add: run_mem.simps)

lemmas eval_mem_defs = run_mem_more run_mem_done step_mem_def slot_def store_def Get_def invoke_def
  Let_def Execute_mem_def Stack0_def final_mem_def fault_mem_def

text \<open>An opcode bound to a target is called, whatever \<^verbatim>\<open>SP\<close> is.\<close>

lemma step_mem_Target:
  assumes "Registry s (instrs ! IP s) = Some (Target f)"
  shows "\<exists>s'. step_mem a instrs s = Inr s' \<and> IP s' = IP s + 1 \<and> SP s' = SP s - 1
      \<and> Registry s' = Registry s \<and> Dispatched s' = Dispatched s @ [instrs ! IP s]"
  using assms
  by (simp add: step_mem_def Get_bound invoke_def store_def Let_def split: prod.splits)

text \<open>Through \<open>n\<close> instructions bound to targets: one call and one slot down for each.\<close>

lemma run_mem_through:
  assumes "IP s + n \<le> length instrs"
    and "\<forall>i. IP s \<le> i \<and> i < IP s + n \<longrightarrow> (\<exists>f. Registry s (instrs ! i) = Some (Target f))"
  shows "\<exists>s'. run_mem a instrs s = run_mem a instrs s' \<and> IP s' = IP s + n
       \<and> SP s' = SP s - int n \<and> Registry s' = Registry s
       \<and> Dispatched s' = Dispatched s @ take n (drop (IP s) instrs)"
  using assms
proof (induction n arbitrary: s)
  case 0
  then show ?case by auto
next
  case (Suc n)
  have lt: "IP s < length instrs" using Suc.prems(1) by simp
  obtain f where f: "Registry s (instrs ! IP s) = Some (Target f)"
    using Suc.prems(2) by auto
  obtain s1 where s1: "step_mem a instrs s = Inr s1" "IP s1 = IP s + 1" "SP s1 = SP s - 1"
      "Registry s1 = Registry s" "Dispatched s1 = Dispatched s @ [instrs ! IP s]"
    using step_mem_Target [OF f, of a] by auto
  have r: "run_mem a instrs s = run_mem a instrs s1"
    using lt s1(1) by (simp add: run_mem_more)
  have b: "\<forall>i. IP s1 \<le> i \<and> i < IP s1 + n \<longrightarrow> (\<exists>f. Registry s1 (instrs ! i) = Some (Target f))"
    using Suc.prems(2) s1(2,4) by simp
  have l: "IP s1 + n \<le> length instrs" using Suc.prems(1) s1(2) by simp
  obtain s' where s': "run_mem a instrs s1 = run_mem a instrs s'" "IP s' = IP s1 + n"
      "SP s' = SP s1 - int n" "Registry s' = Registry s1"
      "Dispatched s' = Dispatched s1 @ take n (drop (IP s1) instrs)"
    using Suc.IH [OF l b] by auto
  have d: "drop (IP s) instrs = instrs ! IP s # drop (IP s + 1) instrs"
    using lt by (simp add: Cons_nth_drop_Suc)
  show ?case
    using r s' s1 d by (intro exI [of _ s']) simp
qed

text \<open>
  Where the window is inside the array, an iteration on the memory is the iteration
  \<open>step\<close>; so a run of \<open>run\<close> that returns is a run of \<open>run_mem\<close>, with the
  same result.
\<close>

lemma slot_in_bounds:
  assumes "2 \<le> SP s" and "SP s \<le> int (length (Stack s))"
  shows "slot s (SP s - 2) = Stack s ! nat (SP s - 2)"
    and "slot s (SP s - 2 + 1) = Stack s ! (nat (SP s - 2) + 1)"
proof -
  show "slot s (SP s - 2) = Stack s ! nat (SP s - 2)"
    using assms by (simp add: slot_def)
  have "nat (SP s - 2 + 1) = nat (SP s - 2) + 1" using assms by simp
  then show "slot s (SP s - 2 + 1) = Stack s ! (nat (SP s - 2) + 1)"
    using assms by (simp add: slot_def)
qed

lemma step_mem_in_bounds:
  assumes "2 \<le> SP s" and "SP s \<le> int (length (Stack s))"
  shows "map_sum (map_prod id vm.truncate) vm.truncate (step_mem a instrs s)
           = step a instrs (vm.truncate s)"
proof (cases "Get a (Registry s) (instrs ! IP s)")
  case (Inl e)
  then show ?thesis
    by (simp add: step_def step_mem_def vm.truncate_def)
next
  case (Inr p)
  obtain Fn reg where p: "p = (Fn, reg)" by (cases p)
  have sl: "slot (s\<lparr>IP := IP s + 1, Registry := reg\<rparr>) (SP s - 2) = Stack s ! nat (SP s - 2)"
    "slot (s\<lparr>IP := IP s + 1, Registry := reg\<rparr>) (SP s - 2 + 1) = Stack s ! (nat (SP s - 2) + 1)"
    using slot_in_bounds [of "s\<lparr>IP := IP s + 1, Registry := reg\<rparr>"] assms by simp_all
  show ?thesis
  proof (cases "invoke (instrs ! IP s) Fn (Context s) (Stack s ! nat (SP s - 2))
                  (Stack s ! (nat (SP s - 2) + 1)) (Stack s ! nat (SP s - 2))")
    case (Inl e)
    then show ?thesis
      using Inr p assms sl
      by (simp add: step_def step_mem_def vm.truncate_def Let_def)
  next
    case (Inr q)
    obtain ctx out pr where q: "q = (ctx, out, pr)" by (cases q)
    show ?thesis
      using \<open>Get a (Registry s) (instrs ! IP s) = Inr p\<close> p Inr q assms sl
      by (simp add: step_def step_mem_def store_def vm.truncate_def Let_def)
  qed
qed

lemma truncate_fields:
  "IP (vm.truncate s) = IP s" "SP (vm.truncate s) = SP s" "Stack (vm.truncate s) = Stack s"
  by (simp_all add: vm.truncate_def)

lemma step_mem_refines:
  assumes "step a instrs (vm.truncate s) = Inr t"
  shows "\<exists>s'. step_mem a instrs s = Inr s' \<and> vm.truncate s' = t"
proof -
  have "2 \<le> SP s \<and> SP s \<le> int (length (Stack s))"
    using step_Inr_fields [OF assms] by (simp add: truncate_fields)
  then have "map_sum (map_prod id vm.truncate) vm.truncate (step_mem a instrs s) = Inr t"
    using step_mem_in_bounds [of s a instrs] assms by simp
  then show ?thesis
    by (cases "step_mem a instrs s") auto
qed

lemma run_mem_refines:
  assumes "run a instrs u = Halted t" and "u = vm.truncate s"
  shows "\<exists>s'. run_mem a instrs s = Inr s' \<and> vm.truncate s' = t"
  using assms
proof (induction a instrs u arbitrary: s rule: run.induct)
  case (1 a instrs u)
  have ip: "IP s = IP u" using "1.prems"(2) by (simp add: truncate_fields)
  show ?case
  proof (cases "IP u < length instrs")
    case False
    then show ?thesis
      using "1.prems" ip by (simp add: run_done run_mem_done)
  next
    case True
    show ?thesis
    proof (cases "step a instrs u")
      case (Inl q)
      then show ?thesis
        using "1.prems"(1) True by (cases q) (simp add: run_more)
    next
      case (Inr u1)
      obtain s1 where s1: "step_mem a instrs s = Inr s1" "vm.truncate s1 = u1"
        using step_mem_refines [of a instrs s u1] Inr "1.prems"(2) by auto
      have "run a instrs u1 = Halted t"
        using "1.prems"(1) True Inr by (simp add: run_more)
      then obtain s' where "run_mem a instrs s1 = Inr s'" "vm.truncate s' = t"
        using "1.IH" [OF True Inr _ s1(2) [symmetric]] by auto
      then show ?thesis
        using True ip s1(1) by (simp add: run_mem_more)
    qed
  qed
qed

section \<open>The registry: registration and lookup\<close>

text \<open>
  C5. After \<^verbatim>\<open>RegisterNode(op, f)\<close>, \<^verbatim>\<open>Get(op)\<close> returns \<open>f\<close> and leaves the
  registry as it is; after a further \<^verbatim>\<open>RegisterNode(op, g)\<close> it returns \<open>g\<close>, and
  the registry is the one that registering \<open>g\<close> alone would give: the last
  registration wins and the earlier binding is gone.
\<close>

theorem Get_after_RegisterNode:
  "Get asserts (RegisterNode reg op f) op = Inr (f, RegisterNode reg op f)
   \<and> Get asserts (RegisterNode (RegisterNode reg op f) op g) op
       = Inr (g, RegisterNode (RegisterNode reg op f) op g)
   \<and> RegisterNode (RegisterNode reg op f) op g = RegisterNode reg op g"
  by (simp add: Get_def RegisterNode_def)

text \<open>
  C9. With the assertion compiled out, \<^verbatim>\<open>Get\<close> of an opcode that has no binding
  returns an empty function and changes the registry: the opcode is bound to that
  empty function afterwards, so that even the assertion would pass from then on.
  Calling the empty function is a fault (\<^verbatim>\<open>std::bad_function_call\<close>), not a call
  of any target.
\<close>

theorem Get_unbound_inserts_empty:
  fixes reg :: "'f TXNodeRegistry" and ctx :: "'f TXExecutionContext"
  assumes "reg op = None"
  shows "Get False reg op = Inr (EmptyFunction, reg(op \<mapsto> EmptyFunction))
       \<and> op \<in> dom (reg(op \<mapsto> EmptyFunction))
       \<and> Get True (reg(op \<mapsto> EmptyFunction)) op = Inr (EmptyFunction, reg(op \<mapsto> EmptyFunction))
       \<and> invoke op EmptyFunction ctx In0 In1 Out = Inl (BadFunctionCall op)"
  using assms by (simp add: Get_def invoke_def)

theorem Get_unbound_inserts_empty_witness:
  "(RegisterCoreNodes EmptyRegistry :: real TXNodeRegistry) 99 = None
   \<and> Get False (RegisterCoreNodes EmptyRegistry :: real TXNodeRegistry) 99
       = Inr (EmptyFunction, (RegisterCoreNodes EmptyRegistry)(99 \<mapsto> EmptyFunction))
   \<and> invoke 99 EmptyFunction \<lparr>DeltaTime = 0, UserData = 0\<rparr> \<lparr>Type = TXFloat, Float = 2\<rparr>
        \<lparr>Type = TXFloat, Float = 3\<rparr> \<lparr>Type = TXFloat, Float = (2::real)\<rparr>
       = Inl (BadFunctionCall 99)"
proof -
  have h: "(RegisterCoreNodes EmptyRegistry :: real TXNodeRegistry) 99 = None"
    by (simp add: core_defs)
  show ?thesis
    using h Get_unbound_inserts_empty
        [where reg = "RegisterCoreNodes EmptyRegistry :: real TXNodeRegistry" and op = 99
           and ctx = "\<lparr>DeltaTime = 0, UserData = 0\<rparr>" and ?In0.0 = "\<lparr>Type = TXFloat, Float = 2\<rparr>"
           and ?In1.0 = "\<lparr>Type = TXFloat, Float = 3\<rparr>" and Out = "\<lparr>Type = TXFloat, Float = 2\<rparr>"]
    by simp
qed

section \<open>The core nodes\<close>

text \<open>
  C10. After \<^verbatim>\<open>RegisterCoreNodes\<close>, whatever was registered before, the function
  \<^verbatim>\<open>Get\<close> returns for \<^verbatim>\<open>TX_OP_ADD_FLOAT\<close> writes one output, of type
  \<^verbatim>\<open>Float\<close> and holding the sum of the \<^verbatim>\<open>Float\<close> members of its two inputs, for all
  contexts, inputs and previous contents of the output slot; the function for
  \<^verbatim>\<open>TX_OP_MUL_FLOAT\<close> does the same with the product. Both hand the context back
  as it was and print nothing, and the output does not depend on the context.
\<close>

theorem core_nodes_AddFloat_MulFloat:
  "(\<exists>fn. Get asserts (RegisterCoreNodes reg) TX_OP_ADD_FLOAT = Inr (fn, RegisterCoreNodes reg)
      \<and> (\<forall>ctx In0 In1 Out.
            invoke TX_OP_ADD_FLOAT fn ctx In0 In1 Out
              = Inr (ctx, \<lparr>Type = TXFloat, Float = Float In0 + Float In1\<rparr>, [])))
   \<and> (\<exists>fn. Get asserts (RegisterCoreNodes reg) TX_OP_MUL_FLOAT = Inr (fn, RegisterCoreNodes reg)
      \<and> (\<forall>ctx In0 In1 Out.
            invoke TX_OP_MUL_FLOAT fn ctx In0 In1 Out
              = Inr (ctx, \<lparr>Type = TXFloat, Float = Float In0 * Float In1\<rparr>, [])))"
  by (simp add: Get_def invoke_def core_defs)

section \<open>Well-formed programs\<close>




section \<open>An opcode without a binding\<close>

text \<open>
  C4, as stated, fails. With the assertion compiled out, \<^verbatim>\<open>Get\<close> of opcode 99,
  which has no binding, does not fail: it returns an empty function. And with the
  assertion in effect, the program 7, 99 with opcode 7 bound to an empty function
  ends at its first instruction in \<^verbatim>\<open>std::bad_function_call\<close>, before opcode 99
  is looked up.
\<close>

theorem unknown_opcode_counterexample:
  "Get False (RegisterCoreNodes EmptyRegistry :: real TXNodeRegistry) 99
     = Inr (EmptyFunction, (RegisterCoreNodes EmptyRegistry)(99 \<mapsto> EmptyFunction))
   \<and> Get False (RegisterCoreNodes EmptyRegistry :: real TXNodeRegistry) 99
       \<noteq> Inl (AssertionFailed 99)
   \<and> (RegisterNode EmptyRegistry 7 EmptyFunction :: real TXNodeRegistry) 99 = None
   \<and> fault_mem (Execute_mem True blank of_nat (RegisterNode EmptyRegistry 7 EmptyFunction)
        \<lparr>Instructions = [7, 99], Constants = []\<rparr> \<lparr>DeltaTime = 0 :: real, UserData = 0\<rparr>)
       = Some (BadFunctionCall 7)"
  by (simp add: eval_mem_defs core_defs)

text \<open>
  C4, amended. If the opcode of instruction \<open>j\<close> has no binding and the instructions
  before it are bound to callable functions, \<^verbatim>\<open>Execute\<close> stops at instruction
  \<open>j\<close>: exactly the \<open>j\<close> instructions before it were dispatched and none is
  dispatched after. With the assertion in effect it stops by the failed assertion of
  \<^verbatim>\<open>Get\<close> for that opcode; with the assertion compiled out \<^verbatim>\<open>Get\<close> returns
  the empty function it inserts and the call of it throws. No access outside the
  array on the way changes this: the source does not test \<^verbatim>\<open>SP\<close>.
\<close>

theorem Execute_mem_unknown_opcode:
  assumes "j < length (Instructions b)"
    and "\<forall>i<j. \<exists>f. reg (Instructions b ! i) = Some (Target f)"
    and "reg (Instructions b ! j) = None"
  shows "fault_mem (Execute_mem asserts outside uninit reg b ctx)
           = Some (if asserts then AssertionFailed (Instructions b ! j)
                   else BadFunctionCall (Instructions b ! j))
       \<and> IP (final_mem (Execute_mem asserts outside uninit reg b ctx)) = j + 1
       \<and> Dispatched (final_mem (Execute_mem asserts outside uninit reg b ctx)) = take j (Instructions b)
       \<and> Get asserts reg (Instructions b ! j)
           = (if asserts then Inl (AssertionFailed (Instructions b ! j))
              else Inr (EmptyFunction, reg(Instructions b ! j \<mapsto> EmptyFunction)))"
proof -
  define s0 :: "'a vm_mem" where "s0 = \<lparr>IP = 0, SP = 0, Stack = Stack0 uninit, Context = ctx, Registry = reg,
        Printed = [], Dispatched = [], Outside = outside\<rparr>"
  define instrs where "instrs = Instructions b"
  have ex: "Execute_mem asserts outside uninit reg b ctx = run_mem asserts instrs s0"
    by (simp add: Execute_mem_def s0_def instrs_def)
  have s0: "IP s0 = 0" "Registry s0 = reg" "Dispatched s0 = []"
    by (simp_all add: s0_def)
  have l: "IP s0 + j \<le> length instrs" using assms(1) s0 by (simp add: instrs_def)
  have b: "\<forall>i. IP s0 \<le> i \<and> i < IP s0 + j \<longrightarrow> (\<exists>f. Registry s0 (instrs ! i) = Some (Target f))"
    using assms(2) s0 by (simp add: instrs_def)
  obtain s1 where s1: "run_mem asserts instrs s0 = run_mem asserts instrs s1"
      "IP s1 = j" "Registry s1 = reg" "Dispatched s1 = take j instrs"
    using run_mem_through [OF l b, of asserts] s0 by auto
  have lt: "IP s1 < length instrs" using s1(2) assms(1) by (simp add: instrs_def)
  have none: "reg (instrs ! j) = None" using assms(3) by (simp add: instrs_def)
  show ?thesis
  proof (cases asserts)
    case True
    have "step_mem asserts instrs s1 = Inl (AssertionFailed (instrs ! j), s1\<lparr>IP := j + 1\<rparr>)"
      using True none s1(2,3) by (simp add: step_mem_def Get_def Let_def)
    then have "run_mem asserts instrs s1 = Inl (AssertionFailed (instrs ! j), s1\<lparr>IP := j + 1\<rparr>)"
      using lt by (simp add: run_mem_more)
    then show ?thesis
      using True ex s1 none by (simp add: fault_mem_def final_mem_def Get_def instrs_def)
  next
    case False
    have "step_mem asserts instrs s1
            = Inl (BadFunctionCall (instrs ! j),
                   s1\<lparr>IP := j + 1, Registry := reg(instrs ! j \<mapsto> EmptyFunction)\<rparr>)"
      using False none s1(2,3) by (simp add: step_mem_def Get_def invoke_def Let_def)
    then have "run_mem asserts instrs s1
            = Inl (BadFunctionCall (instrs ! j),
                   s1\<lparr>IP := j + 1, Registry := reg(instrs ! j \<mapsto> EmptyFunction)\<rparr>)"
      using lt by (simp add: run_mem_more)
    then show ?thesis
      using False ex s1 none by (simp add: fault_mem_def final_mem_def Get_def instrs_def)
  qed
qed

theorem Execute_mem_unknown_opcode_witness:
  "fault_mem (Execute_mem True blank of_nat (RegisterCoreNodes EmptyRegistry)
       \<lparr>Instructions = [TX_OP_ADD_FLOAT, 99], Constants = []\<rparr> \<lparr>DeltaTime = 0 :: real, UserData = 0\<rparr>)
     = Some (AssertionFailed 99)
   \<and> Dispatched (final_mem (Execute_mem True blank of_nat (RegisterCoreNodes EmptyRegistry)
       \<lparr>Instructions = [TX_OP_ADD_FLOAT, 99], Constants = []\<rparr> \<lparr>DeltaTime = 0 :: real, UserData = 0\<rparr>))
     = [TX_OP_ADD_FLOAT]
   \<and> fault_mem (Execute_mem False blank of_nat (RegisterCoreNodes EmptyRegistry)
       \<lparr>Instructions = [TX_OP_ADD_FLOAT, 99], Constants = []\<rparr> \<lparr>DeltaTime = 0 :: real, UserData = 0\<rparr>)
     = Some (BadFunctionCall 99)
   \<and> Dispatched (final_mem (Execute_mem False blank of_nat (RegisterCoreNodes EmptyRegistry)
       \<lparr>Instructions = [TX_OP_ADD_FLOAT, 99], Constants = []\<rparr> \<lparr>DeltaTime = 0 :: real, UserData = 0\<rparr>))
     = [TX_OP_ADD_FLOAT]"
proof -
  let ?b = "\<lparr>Instructions = [TX_OP_ADD_FLOAT, 99], Constants = ([] :: real TXValue list)\<rparr>"
  let ?reg = "RegisterCoreNodes EmptyRegistry :: real TXNodeRegistry"
  have h1: "(1::nat) < length (Instructions ?b)" by simp
  have h2: "\<forall>i<(1::nat). \<exists>f. ?reg (Instructions ?b ! i) = Some (Target f)"
    by (simp add: core_defs)
  have h3: "?reg (Instructions ?b ! 1) = None"
    by (simp add: core_defs)
  note t = Execute_mem_unknown_opcode [OF h1 h2 h3, where outside = blank and uninit = of_nat
      and ctx = "\<lparr>DeltaTime = 0, UserData = 0\<rparr>"]
  show ?thesis
    using t [of True] t [of False] by simp
qed

section \<open>Execution from the empty stack\<close>

text \<open>
  \<^verbatim>\<open>Execute\<close> enters the loop with \<^verbatim>\<open>SP = 0\<close>. When the first opcode is bound,
  the first iteration forms the window \<^verbatim>\<open>&Stack[-2]\<close>: nothing is dispatched.
\<close>

lemma Execute_first_bound:
  assumes "Instructions b = op # rest" and "reg op = Some fn"
  shows "Execute a uninit reg b ctx
           = Faulted (OutOfBounds (- 2)) ((seeded [] uninit reg ctx)\<lparr>IP := 1\<rparr>)"
  using assms by (simp add: Execute_seeded eval_defs)

text \<open>
  C3. The example of the source, \<^verbatim>\<open>ExampleBlueprint\<close>, starts with the two-input node
  \<^verbatim>\<open>TX_OP_ADD_FLOAT\<close> on the empty stack. The source has no underflow check: the run
  stops in its first iteration at the window \<^verbatim>\<open>&Stack[-2]\<close>, outside the array, with
  nothing dispatched and nothing printed.
\<close>

theorem ExampleBlueprint_out_of_bounds:
  "ExampleBlueprint asserts uninit dt reg
     = Faulted (OutOfBounds (- 2))
         \<lparr>IP = 1, SP = 0, Stack = Stack0 uninit, Context = \<lparr>DeltaTime = dt, UserData = 0\<rparr>,
          Registry = RegisterCoreNodes reg, Printed = [], Dispatched = []\<rparr>"
  by (simp add: ExampleBlueprint_def Execute_def run_more run_done step_def Get_def Let_def core_defs)

section \<open>The scenario with three values on the stack\<close>

text \<open>
  C2. \<^verbatim>\<open>Execute\<close> has no parameter and no instruction that puts 2, 3 and 4 on the
  stack: it enters the loop with a fresh array and \<^verbatim>\<open>SP = 0\<close>. On the program add,
  multiply, after \<^verbatim>\<open>RegisterCoreNodes\<close>, the first iteration forms the window
  \<^verbatim>\<open>&Stack[-2]\<close>, outside the array: no stack 5, 4 and no result 20 come about, and
  nothing is dispatched inside the array.
\<close>

theorem Execute_Add_Mul_out_of_bounds:
  "Execute asserts uninit (RegisterCoreNodes reg)
     \<lparr>Instructions = [TX_OP_ADD_FLOAT, TX_OP_MUL_FLOAT], Constants = cs\<rparr> ctx
     = Faulted (OutOfBounds (- 2))
         \<lparr>IP = 1, SP = 0, Stack = Stack0 uninit, Context = ctx,
          Registry = RegisterCoreNodes reg, Printed = [], Dispatched = []\<rparr>"
  by (simp add: Execute_def run_more run_done step_def Get_def Let_def core_defs)

text \<open>
  Had the three values been on the stack, the loop would work on the two top slots:
  2, 3, 4 (bottom first) gives 14, and 4, 2, 3 gives 20.
\<close>

lemma run_top_window:
  fixes uninit :: "nat \<Rightarrow> real"
  shows "map Float (stack_contents (final (run asserts [TX_OP_ADD_FLOAT, TX_OP_MUL_FLOAT]
            (seeded [2, 3, 4] uninit (RegisterCoreNodes reg) ctx)))) = [14]"
    and "map Float (stack_contents (final (run asserts [TX_OP_ADD_FLOAT, TX_OP_MUL_FLOAT]
            (seeded [4, 2, 3] uninit (RegisterCoreNodes reg) ctx)))) = [20]"
  by (simp_all add: eval_defs core_defs)

section \<open>Termination and program order\<close>


section \<open>Determinism\<close>

text \<open>
  C6. \<^verbatim>\<open>Execute\<close> enters the loop with \<^verbatim>\<open>SP = 0\<close>, so every window lies below the
  array. On the program add, multiply the value left on top of the stack, at
  \<^verbatim>\<open>Stack[SP - 1]\<close>, is computed from what the memory at \<^verbatim>\<open>Stack[-3]\<close>,
  \<^verbatim>\<open>Stack[-2]\<close> and \<^verbatim>\<open>Stack[-1]\<close> held, the array itself is left as it was found,
  uninitialised, and \<^verbatim>\<open>ExampleBlueprint\<close> prints what \<^verbatim>\<open>Stack[-4]\<close> held. None of
  this is fixed by the program, the registry and the context: two runs that find
  different memory beside the array call the node functions on different values and
  end with different results. Inside the array the loop does not depend on the slots
  it has not written (\<open>run_visible\<close>).
\<close>

theorem Execute_mem_depends_on_outside:
  "slot (final_mem (Execute_mem asserts outside uninit (RegisterCoreNodes reg)
           \<lparr>Instructions = [TX_OP_ADD_FLOAT, TX_OP_MUL_FLOAT], Constants = cs\<rparr> ctx))
        (SP (final_mem (Execute_mem asserts outside uninit (RegisterCoreNodes reg)
           \<lparr>Instructions = [TX_OP_ADD_FLOAT, TX_OP_MUL_FLOAT], Constants = cs\<rparr> ctx)) - 1)
     = \<lparr>Type = TXFloat,
        Float = Float (outside (- 3)) * (Float (outside (- 2)) + Float (outside (- 1)))\<rparr>
   \<and> Stack (final_mem (Execute_mem asserts outside uninit (RegisterCoreNodes reg)
           \<lparr>Instructions = [TX_OP_ADD_FLOAT, TX_OP_MUL_FLOAT], Constants = cs\<rparr> ctx))
     = Stack0 uninit
   \<and> Printed (final_mem (ExampleBlueprint_mem asserts outside uninit dt reg))
     = [Float (outside (- 4))]"
  by (simp add: ExampleBlueprint_mem_def eval_mem_defs core_defs)

section \<open>The constants of a program\<close>

text \<open>
  C8. \<^verbatim>\<open>Execute\<close> does not read \<^verbatim>\<open>Constants\<close>: two programs with the same
  instructions, whatever their constants, give the same outcome from the same
  registry, context and stack array, hence the same dispatches and the same final
  stack. A node function is passed the context and the window only, so it cannot
  read them either.
\<close>

theorem Execute_ignores_Constants:
  assumes "Instructions b1 = Instructions b2"
  shows "Execute asserts uninit reg b1 ctx = Execute asserts uninit reg b2 ctx"
  using assms by (simp add: Execute_def)

theorem Execute_ignores_Constants_witness:
  "Execute True of_nat (RegisterCoreNodes EmptyRegistry)
     \<lparr>Instructions = [TX_OP_ADD_FLOAT], Constants = []\<rparr> \<lparr>DeltaTime = 0 :: real, UserData = 0\<rparr>
   = Execute True of_nat (RegisterCoreNodes EmptyRegistry)
     \<lparr>Instructions = [TX_OP_ADD_FLOAT], Constants = [\<lparr>Type = TXFloat, Float = 2\<rparr>]\<rparr>
     \<lparr>DeltaTime = 0, UserData = 0\<rparr>"
proof -
  have h: "Instructions \<lparr>Instructions = [TX_OP_ADD_FLOAT], Constants = ([] :: real TXValue list)\<rparr>
         = Instructions \<lparr>Instructions = [TX_OP_ADD_FLOAT],
                         Constants = [\<lparr>Type = TXFloat, Float = 2 :: real\<rparr>]\<rparr>"
    by simp
  show ?thesis
    by (rule Execute_ignores_Constants [OF h])
qed

end
